theory Spec2Isabelle
  imports Complex_Main
begin

section \<open>catMass: stoichiometry and X-ray absorption sample calculations\<close>

text \<open>
  A shallow embedding of \<^verbatim>\<open>src/catmass/src/functions.py\<close>: the four functions
  \<^verbatim>\<open>XASMassCalc\<close>, \<^verbatim>\<open>XASStoichCalc\<close>, \<^verbatim>\<open>metalCalculateSample\<close> and
  \<^verbatim>\<open>ComplexCalculateSample\<close>.

  \<^item> Python and numpy floats are idealised as \<open>real\<close>. Rounding is therefore not modelled;
    every statement below is about the arithmetic the code writes down.
  \<^item> A Python exception is a value \<open>Inl e\<close> of the result type \<open>failure + 'a\<close>.
  \<^item> A division of Python floats by zero raises \<^verbatim>\<open>ZeroDivisionError\<close>. A division in
    which an operand is a numpy value does not raise: numpy warns and yields \<^verbatim>\<open>inf\<close> or
    \<^verbatim>\<open>nan\<close>. The reals have no such values, so the model ends such a run with the outcome
    \<open>FloatSpecial\<close>, which stands for "the result is not a finite number" and not for an
    exception.
  \<^item> The library \<^verbatim>\<open>xraylib\<close> is not part of the repository. Its six functions that the
    code calls are the fields of a record, a parameter of every function of the model; each
    may raise (\<^verbatim>\<open>ValueError\<close> in xraylib 4).
\<close>

subsection \<open>Results and Python primitives\<close>

datatype failure = ValueError | TypeError | IndexError | ZeroDivisionError | FloatSpecial

definition bnd :: "'e + 'a \<Rightarrow> ('a \<Rightarrow> 'e + 'b) \<Rightarrow> 'e + 'b" where
  "bnd m f = (case m of Inl e \<Rightarrow> Inl e | Inr x \<Rightarrow> f x)"

text \<open>A \<^verbatim>\<open>for\<close> loop that computes one value per item, stopping at the first exception.\<close>

fun mapM :: "('a \<Rightarrow> 'e + 'b) \<Rightarrow> 'a list \<Rightarrow> 'e + 'b list" where
  "mapM f [] = Inr []"
| "mapM f (x # xs) = bnd (f x) (\<lambda>y. bnd (mapM f xs) (\<lambda>ys. Inr (y # ys)))"

text \<open>A \<^verbatim>\<open>for\<close> loop that updates one variable per item.\<close>

fun foldM :: "('s \<Rightarrow> 'a \<Rightarrow> 'e + 's) \<Rightarrow> 's \<Rightarrow> 'a list \<Rightarrow> 'e + 's" where
  "foldM f s [] = Inr s"
| "foldM f s (x # xs) = bnd (f s x) (\<lambda>s'. foldM f s' xs)"

text \<open>\<^verbatim>\<open>a / b\<close> on Python floats.\<close>

definition py_div :: "real \<Rightarrow> real \<Rightarrow> failure + real" where
  "py_div a b = (if b = 0 then Inl ZeroDivisionError else Inr (a / b))"

text \<open>\<^verbatim>\<open>a / b\<close> where an operand is a numpy scalar or array entry.\<close>

definition np_div :: "real \<Rightarrow> real \<Rightarrow> failure + real" where
  "np_div a b = (if b = 0 then Inl FloatSpecial else Inr (a / b))"

text \<open>\<^verbatim>\<open>xs[0]\<close> on a Python list.\<close>

definition py_first :: "'a list \<Rightarrow> failure + 'a" where
  "py_first xs = (case xs of [] \<Rightarrow> Inl IndexError | x # _ \<Rightarrow> Inr x)"

text \<open>\<^verbatim>\<open>np.max\<close> of a non-empty array and the builtin \<^verbatim>\<open>min\<close> of a non-empty sequence.\<close>

fun np_max :: "real list \<Rightarrow> real" where
  "np_max [] = 0"
| "np_max (x # xs) = fold max xs x"

fun py_min :: "real list \<Rightarrow> real" where
  "py_min [] = 0"
| "py_min (x # xs) = fold min xs x"

subsection \<open>The format specification \<^verbatim>\<open>{1:0.6f}\<close>\<close>

definition digit :: "nat \<Rightarrow> char" where
  "digit n = ''0123456789'' ! (n mod 10)"

fun nat_digits :: "nat \<Rightarrow> string" where
  "nat_digits n = (if n < 10 then [digit n] else nat_digits (n div 10) @ [digit n])"

definition round_half_even :: "real \<Rightarrow> int" where
  "round_half_even x =
     (let f = \<lfloor>x\<rfloor>; d = x - of_int f
      in if d < 1 / 2 then f else if 1 / 2 < d then f + 1 else if even f then f else f + 1)"

text \<open>Sign, integer part, point, six digits: \<^verbatim>\<open>'{0:0.6f}'.format(-0.25)\<close> is \<^verbatim>\<open>-0.250000\<close>.\<close>

definition format_6f :: "real \<Rightarrow> string" where
  "format_6f v =
     (let n = nat (round_half_even (\<bar>v\<bar> * 1000000))
      in (if v < 0 then ''-'' else '''') @ nat_digits (n div 1000000) @ ''.'' @
         map (\<lambda>k. digit (n div 10 ^ k)) [5, 4, 3, 2, 1, 0])"

subsection \<open>The atomic data library\<close>

text \<open>
  \<^verbatim>\<open>xraylib.CompoundParser\<close> returns a dictionary with the parallel lists
  \<^verbatim>\<open>Elements\<close>, \<^verbatim>\<open>massFractions\<close> and \<^verbatim>\<open>nAtoms\<close>, each of length \<^verbatim>\<open>nElements\<close>.
  The model keeps one list of entries, so \<^verbatim>\<open>nElements\<close> is its length and
  \<^verbatim>\<open>range(0, nElements)\<close> runs over its entries in order.
\<close>

record elementData =
  Element :: int
  massFraction :: real
  nAtoms :: real

type_synonym compoundData = "elementData list"

record xraylib =
  CompoundParser :: "string \<Rightarrow> failure + compoundData"
  AtomicNumberToSymbol :: "int \<Rightarrow> failure + string"
  SymbolToAtomicNumber :: "string \<Rightarrow> failure + int"
  EdgeEnergy :: "int \<Rightarrow> int \<Rightarrow> failure + real"
  CS_Photo :: "int \<Rightarrow> real \<Rightarrow> failure + real"
  AtomicWeight :: "int \<Rightarrow> failure + real"

subsection \<open>\<^verbatim>\<open>XASMassCalc\<close>: edge energy, sample mass and edge step\<close>

text \<open>
  Lines 76 to 84: the \<^verbatim>\<open>if\<close>/\<^verbatim>\<open>elif\<close> chain over the edge label. It has no
  \<^verbatim>\<open>else\<close>: with any other label \<^verbatim>\<open>E0\<close> keeps the placeholder value 0 of line 66.
\<close>

definition identify_edge :: "xraylib \<Rightarrow> string \<Rightarrow> string \<Rightarrow> failure + real" where
  "identify_edge lib edge_Element Edge =
     (if Edge = ''K'' then
        bnd (SymbolToAtomicNumber lib edge_Element) (\<lambda>z. EdgeEnergy lib z 0)
      else if Edge = ''L1'' then
        bnd (SymbolToAtomicNumber lib edge_Element) (\<lambda>z. EdgeEnergy lib z 1)
      else if Edge = ''L2'' then
        bnd (SymbolToAtomicNumber lib edge_Element) (\<lambda>z. EdgeEnergy lib z 2)
      else if Edge = ''L3'' then
        bnd (SymbolToAtomicNumber lib edge_Element) (\<lambda>z. EdgeEnergy lib z 3)
      else Inr 0)"

text \<open>
  The pair of cross sections of one element, lines 92, 94 and 119. The offsets are the
  literals \<^verbatim>\<open>0.05\<close> of the source.
\<close>

definition Photo_XS_row :: "xraylib \<Rightarrow> real \<Rightarrow> int \<Rightarrow> failure + real \<times> real" where
  "Photo_XS_row lib E0 z =
     bnd (CS_Photo lib z (E0 - 0.05)) (\<lambda>lo.
     bnd (CS_Photo lib z (E0 + 0.05)) (\<lambda>hi. Inr (lo, hi)))"

text \<open>Lines 98 to 106: the rows \<^verbatim>\<open>mu_tot\<close> and their column sums \<^verbatim>\<open>mu_ave\<close>.\<close>

definition mu_tot :: "(real \<times> real) list \<Rightarrow> compoundData \<Rightarrow> (real \<times> real) list" where
  "mu_tot Photo_XS Elements =
     map (\<lambda>(p, e). (fst p * massFraction e, snd p * massFraction e)) (zip Photo_XS Elements)"

definition mu_ave :: "(real \<times> real) list \<Rightarrow> compoundData \<Rightarrow> real \<times> real" where
  "mu_ave Photo_XS Elements =
     (sum_list (map fst (mu_tot Photo_XS Elements)), sum_list (map snd (mu_tot Photo_XS Elements)))"

text \<open>Lines 88 to 113, the branch \<^verbatim>\<open>nElements > 1\<close>; it returns \<^verbatim>\<open>(mass, step)\<close>.\<close>

definition mass_step_compound ::
  "xraylib \<Rightarrow> compoundData \<Rightarrow> real \<Rightarrow> real \<Rightarrow> real \<Rightarrow> failure + real \<times> real" where
  "mass_step_compound lib Elements E0 Area AL =
     bnd (mapM (\<lambda>e. Photo_XS_row lib E0 (Element e)) Elements) (\<lambda>Photo_XS.
     bnd (np_div (AL * Area) (snd (mu_ave Photo_XS Elements))) (\<lambda>mass.
     bnd (mapM (\<lambda>(p, e). bnd (np_div (massFraction e * mass) Area)
                  (\<lambda>q. Inr (q * (snd p - fst p)))) (zip Photo_XS Elements)) (\<lambda>step.
     Inr (mass, np_max step))))"

text \<open>Lines 118 to 124, the \<^verbatim>\<open>else\<close> branch.\<close>

definition mass_step_single ::
  "xraylib \<Rightarrow> compoundData \<Rightarrow> real \<Rightarrow> real \<Rightarrow> real \<Rightarrow> failure + real \<times> real" where
  "mass_step_single lib Elements E0 Area AL =
     bnd (py_first Elements) (\<lambda>e.
     bnd (Photo_XS_row lib E0 (Element e)) (\<lambda>Photo_XS.
     bnd (py_div (AL * Area) (snd Photo_XS)) (\<lambda>mass.
     bnd (py_div mass Area) (\<lambda>q.
     Inr (mass, q * (snd Photo_XS - fst Photo_XS))))))"

text \<open>
  The whole function. Line 65 rebinds \<^verbatim>\<open>delta\<close> to \<^verbatim>\<open>delta/1000\<close>; no later line reads
  it. The result is the triple \<^verbatim>\<open>(E0, mass, step)\<close> of line 130.
\<close>

definition XASMassCalc ::
  "xraylib \<Rightarrow> string \<Rightarrow> string \<Rightarrow> string \<Rightarrow> real \<Rightarrow> real \<Rightarrow> real \<Rightarrow> failure + real \<times> real \<times> real" where
  "XASMassCalc lib Sample Element_arg Edge Area AL delta =
     (let delta = delta / 1000 in
      bnd (CompoundParser lib Sample) (\<lambda>Elements.
      bnd (CompoundParser lib Element_arg) (\<lambda>parsed.
      bnd (py_first parsed) (\<lambda>first.
      bnd (AtomicNumberToSymbol lib (Element first)) (\<lambda>edge_Element.
      bnd (identify_edge lib edge_Element Edge) (\<lambda>E0.
      bnd (if 1 < length Elements then mass_step_compound lib Elements E0 Area AL
           else mass_step_single lib Elements E0 Area AL) (\<lambda>(mass, step).
      Inr (E0 * 1000, mass * 1000, step))))))))"

subsection \<open>The weighted element table \<^verbatim>\<open>Updated_MF\<close>\<close>

text \<open>
  Every formula function collects rows \<^verbatim>\<open>[atomic number, weighted mass fraction]\<close> in
  the variable \<^verbatim>\<open>Updated_MF\<close>. It starts as the empty Python list, becomes the flat
  Python list \<^verbatim>\<open>[Z, mf]\<close> at the first row (\<^verbatim>\<open>if x == 0\<close>) and a two-dimensional numpy
  array from the second row on (\<^verbatim>\<open>np.vstack\<close>). The model keeps the list of rows: no row
  is the empty list, one row is the flat list, two or more rows are the array.
\<close>

type_synonym table = "(int \<times> real) list"

text \<open>
  \<^verbatim>\<open>np.vstack((Updated_MF, new_line))\<close>. Stacking the empty list and a row of two
  entries raises \<^verbatim>\<open>ValueError\<close> (the row lengths 0 and 2 differ).
\<close>

definition vstack :: "table \<Rightarrow> int \<times> real \<Rightarrow> failure + table" where
  "vstack Updated_MF new_line =
     (if Updated_MF = [] then Inl ValueError else Inr (Updated_MF @ [new_line]))"

text \<open>
  The moles of one row, \<^verbatim>\<open>Updated_MF[x,1]/xraylib.AtomicWeight(int(Updated_MF[x,0]))\<close>:
  a numpy entry divided by a Python float.
\<close>

definition mol_row :: "xraylib \<Rightarrow> int \<times> real \<Rightarrow> failure + real" where
  "mol_row lib row = bnd (AtomicWeight lib (fst row)) (\<lambda>w. np_div (snd row) w)"

text \<open>
  Lines 186 to 195, 296 to 305 and 386 to 395 (the same block in the three functions):
  the moles of every row, divided by their minimum.
  \<^item> With no row, \<^verbatim>\<open>np.shape(Updated_MF)[0]\<close> is 0, the loop does not run and
    \<^verbatim>\<open>min([])\<close> raises \<^verbatim>\<open>ValueError\<close>.
  \<^item> With one row, \<^verbatim>\<open>Updated_MF\<close> is the flat list \<^verbatim>\<open>[Z, mf]\<close>: its shape is \<^verbatim>\<open>(2,)\<close>,
    the loop runs, and \<^verbatim>\<open>Updated_MF[0,1]\<close> indexes a Python list with a tuple, which raises
    \<^verbatim>\<open>TypeError\<close>.
\<close>

definition normalized_mol :: "xraylib \<Rightarrow> table \<Rightarrow> failure + real list" where
  "normalized_mol lib Updated_MF =
     (case Updated_MF of
        [] \<Rightarrow> Inl ValueError
      | [row] \<Rightarrow> Inl TypeError
      | _ \<Rightarrow> bnd (mapM (mol_row lib) Updated_MF) (\<lambda>mol.
             mapM (\<lambda>m. np_div m (py_min mol)) mol))"

text \<open>
  The string loops (lines 198 to 203 and 209 to 214, and their copies): for every row the
  symbol followed by the number with six decimals, concatenated in row order.
\<close>

definition formula_string :: "xraylib \<Rightarrow> (int \<times> real) list \<Rightarrow> failure + string" where
  "formula_string lib rows =
     bnd (mapM (\<lambda>row. bnd (AtomicNumberToSymbol lib (fst row))
                  (\<lambda>sym. Inr (sym @ format_6f (snd row)))) rows) (\<lambda>parts.
     Inr (concat parts))"

text \<open>Normalisation and the first string, \<^verbatim>\<open>Sample_String\<close>.\<close>

definition intermediate_string :: "xraylib \<Rightarrow> table \<Rightarrow> failure + string" where
  "intermediate_string lib Updated_MF =
     bnd (normalized_mol lib Updated_MF) (\<lambda>mol.
     formula_string lib (zip (map fst Updated_MF) mol))"

text \<open>
  The condensed string built from the re-parsed compound. When the parser reports no
  element the loop does not run and the variable keeps its earlier value \<open>init\<close>.
\<close>

definition condensed_string :: "xraylib \<Rightarrow> string \<Rightarrow> compoundData \<Rightarrow> failure + string" where
  "condensed_string lib init parsed =
     (if parsed = [] then Inr init
      else formula_string lib (map (\<lambda>e. (Element e, nAtoms e)) parsed))"

subsection \<open>\<^verbatim>\<open>XASStoichCalc\<close>: dilution of a sample\<close>

text \<open>One row of lines 176, 178 and 183: \<^verbatim>\<open>massFractions[x]*DR/(Sample1_DR + Sample2_DR)\<close>.\<close>

definition dilution_row :: "real \<Rightarrow> real \<Rightarrow> real \<Rightarrow> elementData \<Rightarrow> failure + int \<times> real" where
  "dilution_row DR Sample1_DR Sample2_DR e =
     bnd (py_div (massFraction e * DR) (Sample1_DR + Sample2_DR)) (\<lambda>f. Inr (Element e, f))"

text \<open>Lines 171 to 184.\<close>

definition dilution_table ::
  "compoundData \<Rightarrow> compoundData \<Rightarrow> real \<Rightarrow> real \<Rightarrow> failure + table" where
  "dilution_table Sample1_Elements Sample2_Elements Sample1_DR Sample2_DR =
     bnd (mapM (dilution_row Sample1_DR Sample1_DR Sample2_DR) Sample1_Elements) (\<lambda>Updated_MF.
     if 0 < Sample2_DR then
       foldM (\<lambda>t e. bnd (dilution_row Sample2_DR Sample1_DR Sample2_DR e) (vstack t))
         Updated_MF Sample2_Elements
     else Inr Updated_MF)"

text \<open>Lines 163 to 216. The result starts as the empty string (line 163).\<close>

definition XASStoichCalc :: "xraylib \<Rightarrow> string \<Rightarrow> string \<Rightarrow> real \<Rightarrow> real \<Rightarrow> failure + string" where
  "XASStoichCalc lib Sample1 Sample2 Sample1_DR Sample2_DR =
     bnd (CompoundParser lib Sample1) (\<lambda>Sample1_Elements.
     bnd (CompoundParser lib Sample2) (\<lambda>Sample2_Elements.
     bnd (dilution_table Sample1_Elements Sample2_Elements Sample1_DR Sample2_DR) (\<lambda>Updated_MF.
     bnd (intermediate_string lib Updated_MF) (\<lambda>Sample_String.
     bnd (CompoundParser lib Sample_String) (\<lambda>Diluted_Sample.
     condensed_string lib '''' Diluted_Sample)))))"

subsection \<open>\<^verbatim>\<open>metalCalculateSample\<close>: one or two metal sites on a support\<close>

text \<open>Lines 258 to 293, after both parses of lines 252 and 254.\<close>

definition metal_table ::
  "xraylib \<Rightarrow> compoundData \<Rightarrow> real \<Rightarrow> string \<Rightarrow> real \<Rightarrow> compoundData \<Rightarrow> failure + table" where
  "metal_table lib MetalSite1_Elements Metal1_Loading Metal_Site2 Metal2_Loading Support_Elements =
     (let Updated_MF =
            map (\<lambda>e. (Element e, massFraction e * Metal1_Loading / 100)) MetalSite1_Elements
      in if Metal_Site2 = '''' then
           foldM (\<lambda>t e. vstack t (Element e, massFraction e * (1 - Metal1_Loading / 100)))
             Updated_MF Support_Elements
         else
           bnd (CompoundParser lib Metal_Site2) (\<lambda>MetalSite2_Elements.
           bnd (foldM (\<lambda>t e. vstack t (Element e, massFraction e * Metal2_Loading / 100))
                  Updated_MF MetalSite2_Elements) (\<lambda>Updated_MF.
           foldM (\<lambda>t e. vstack t
                    (Element e, massFraction e * (1 - (Metal1_Loading + Metal2_Loading) / 100)))
             Updated_MF Support_Elements)))"

text \<open>
  Lines 252 to 327. The condensed string is built in the variable that holds the
  intermediate string.
\<close>

definition metalCalculateSample ::
  "xraylib \<Rightarrow> string \<Rightarrow> real \<Rightarrow> string \<Rightarrow> real \<Rightarrow> string \<Rightarrow> failure + string" where
  "metalCalculateSample lib Metal_Site1 Metal1_Loading Metal_Site2 Metal2_Loading Support =
     bnd (CompoundParser lib Metal_Site1) (\<lambda>MetalSite1_Elements.
     bnd (CompoundParser lib Support) (\<lambda>Support_Elements.
     bnd (metal_table lib MetalSite1_Elements Metal1_Loading Metal_Site2 Metal2_Loading
            Support_Elements) (\<lambda>Updated_MF.
     bnd (intermediate_string lib Updated_MF) (\<lambda>Sample_String.
     bnd (CompoundParser lib Sample_String) (\<lambda>Constructed_Sample.
     condensed_string lib Sample_String Constructed_Sample)))))"

subsection \<open>\<^verbatim>\<open>ComplexCalculateSample\<close>: a metal complex on a support\<close>

text \<open>\<^verbatim>\<open>list.index\<close>, which raises \<^verbatim>\<open>ValueError\<close> when the value is absent.\<close>

fun py_index :: "'a list \<Rightarrow> 'a \<Rightarrow> failure + nat" where
  "py_index [] v = Inl ValueError"
| "py_index (x # xs) v = (if x = v then Inr 0 else bnd (py_index xs v) (\<lambda>i. Inr (Suc i)))"

text \<open>Lines 367 and 368.\<close>

definition wt_Factor :: "xraylib \<Rightarrow> compoundData \<Rightarrow> real \<Rightarrow> string \<Rightarrow> failure + real" where
  "wt_Factor lib MetalSite_Elements Metal_Loading Metal_Site =
     bnd (SymbolToAtomicNumber lib Metal_Site) (\<lambda>z.
     bnd (py_index (map Element MetalSite_Elements) z) (\<lambda>ind.
     py_div Metal_Loading (massFraction (MetalSite_Elements ! ind))))"

text \<open>Lines 371 to 376.\<close>

definition complex_rows :: "compoundData \<Rightarrow> real \<Rightarrow> table" where
  "complex_rows MetalSite_Elements wt =
     map (\<lambda>e. (Element e, massFraction e * wt / 100)) MetalSite_Elements"

text \<open>
  Line 378, \<^verbatim>\<open>np.sum(Updated_MF[:,1])\<close>. While \<^verbatim>\<open>Updated_MF\<close> is a Python list (no row
  or one row) the index \<^verbatim>\<open>[:,1]\<close> raises \<^verbatim>\<open>TypeError\<close>.
\<close>

definition complex_MF :: "table \<Rightarrow> failure + real" where
  "complex_MF Updated_MF =
     (case Updated_MF of
        [] \<Rightarrow> Inl TypeError
      | [row] \<Rightarrow> Inl TypeError
      | _ \<Rightarrow> Inr (sum_list (map snd Updated_MF)))"

text \<open>Lines 364 to 383.\<close>

definition complex_table ::
  "xraylib \<Rightarrow> compoundData \<Rightarrow> real \<Rightarrow> string \<Rightarrow> compoundData \<Rightarrow> failure + table" where
  "complex_table lib MetalSite_Elements Metal_Loading Metal_Site Support_Elements =
     bnd (wt_Factor lib MetalSite_Elements Metal_Loading Metal_Site) (\<lambda>wt.
     bnd (complex_MF (complex_rows MetalSite_Elements wt)) (\<lambda>cmf.
     foldM (\<lambda>t e. vstack t (Element e, massFraction e * (1 - cmf)))
       (complex_rows MetalSite_Elements wt) Support_Elements))"

text \<open>Lines 358 to 417.\<close>

definition ComplexCalculateSample ::
  "xraylib \<Rightarrow> string \<Rightarrow> real \<Rightarrow> string \<Rightarrow> string \<Rightarrow> failure + string" where
  "ComplexCalculateSample lib Complex_arg Metal_Loading Metal_Site Support =
     bnd (CompoundParser lib Complex_arg) (\<lambda>MetalSite_Elements.
     bnd (CompoundParser lib Support) (\<lambda>Support_Elements.
     bnd (complex_table lib MetalSite_Elements Metal_Loading Metal_Site Support_Elements)
       (\<lambda>Updated_MF.
     bnd (intermediate_string lib Updated_MF) (\<lambda>Sample_String.
     bnd (CompoundParser lib Sample_String) (\<lambda>Constructed_Sample.
     condensed_string lib Sample_String Constructed_Sample)))))"

subsection \<open>A small data library for concrete runs\<close>

text \<open>
  Four elements with round atomic weights, the compounds \<^verbatim>\<open>Fe2O3\<close> and \<^verbatim>\<open>SiO2\<close> with the
  mass fractions these weights give (elements by ascending atomic number, as
  \<^verbatim>\<open>CompoundParser\<close> lists them), K-edge energies in keV, and cross sections that are
  constant between breakpoints: iron jumps from 50 to 400 at its K edge, oxygen from 1000
  to 20000 at its own, and at the iron edge oxygen falls from 12 to 11.
\<close>

definition demo_CompoundParser :: "string \<Rightarrow> failure + compoundData" where
  "demo_CompoundParser s =
     (if s = ''O'' then Inr [\<lparr>Element = 8, massFraction = 1, nAtoms = 1\<rparr>]
      else if s = ''Fe'' then Inr [\<lparr>Element = 26, massFraction = 1, nAtoms = 1\<rparr>]
      else if s = ''Pt'' then Inr [\<lparr>Element = 78, massFraction = 1, nAtoms = 1\<rparr>]
      else if s = ''Fe2O3'' then
        Inr [\<lparr>Element = 8, massFraction = 3 / 10, nAtoms = 3\<rparr>,
             \<lparr>Element = 26, massFraction = 7 / 10, nAtoms = 2\<rparr>]
      else if s = ''SiO2'' then
        Inr [\<lparr>Element = 8, massFraction = 8 / 15, nAtoms = 2\<rparr>,
             \<lparr>Element = 14, massFraction = 7 / 15, nAtoms = 1\<rparr>]
      else Inl ValueError)"

definition demo_AtomicNumberToSymbol :: "int \<Rightarrow> failure + string" where
  "demo_AtomicNumberToSymbol z =
     (if z = 8 then Inr ''O'' else if z = 14 then Inr ''Si'' else if z = 26 then Inr ''Fe''
      else if z = 78 then Inr ''Pt'' else Inl ValueError)"

definition demo_SymbolToAtomicNumber :: "string \<Rightarrow> failure + int" where
  "demo_SymbolToAtomicNumber s =
     (if s = ''O'' then Inr 8 else if s = ''Si'' then Inr 14 else if s = ''Fe'' then Inr 26
      else if s = ''Pt'' then Inr 78 else Inl ValueError)"

definition demo_EdgeEnergy :: "int \<Rightarrow> int \<Rightarrow> failure + real" where
  "demo_EdgeEnergy z shell =
     (if shell = 0 \<and> z = 8 then Inr (532 / 1000)
      else if shell = 0 \<and> z = 14 then Inr (1839 / 1000)
      else if shell = 0 \<and> z = 26 then Inr (7112 / 1000)
      else Inl ValueError)"

definition demo_CS_Photo :: "int \<Rightarrow> real \<Rightarrow> failure + real" where
  "demo_CS_Photo z E =
     (if z = 26 then Inr (if E < 7112 / 1000 then 50 else 400)
      else if z = 8 then
        Inr (if E < 532 / 1000 then 1000 else if E < 1 then 20000
             else if E < 7112 / 1000 then 12 else 11)
      else Inr 100)"

definition demo_AtomicWeight :: "int \<Rightarrow> failure + real" where
  "demo_AtomicWeight z =
     (if z = 8 then Inr 16 else if z = 14 then Inr 28 else if z = 26 then Inr 56
      else if z = 78 then Inr 195 else Inl ValueError)"

definition demo_lib :: xraylib where
  "demo_lib =
     \<lparr>CompoundParser = demo_CompoundParser,
      AtomicNumberToSymbol = demo_AtomicNumberToSymbol,
      SymbolToAtomicNumber = demo_SymbolToAtomicNumber,
      EdgeEnergy = demo_EdgeEnergy,
      CS_Photo = demo_CS_Photo,
      AtomicWeight = demo_AtomicWeight\<rparr>"

subsection \<open>Basic facts\<close>

lemma bnd_Inl [simp]: "bnd (Inl e) f = Inl e"
  by (simp add: bnd_def)

lemma bnd_Inr [simp]: "bnd (Inr x) f = f x"
  by (simp add: bnd_def)

lemma mapM_Inr: "(\<forall>x\<in>set xs. f x = Inr (g x)) \<Longrightarrow> mapM f xs = Inr (map g xs)"
  by (induction xs) auto

lemma np_max_Max: "xs \<noteq> [] \<Longrightarrow> np_max xs = Max (set xs)"
  by (cases xs) (simp_all add: Max.set_eq_fold [symmetric])

lemma py_min_Min: "xs \<noteq> [] \<Longrightarrow> py_min xs = Min (set xs)"
  by (cases xs) (simp_all add: Min.set_eq_fold [symmetric])

lemmas demo_simps = demo_lib_def demo_CompoundParser_def demo_AtomicNumberToSymbol_def
  demo_SymbolToAtomicNumber_def demo_EdgeEnergy_def demo_CS_Photo_def demo_AtomicWeight_def

subsection \<open>Mass and edge step\<close>

lemma mu_ave_sums:
  "mu_ave (map (\<lambda>e. (lo (Element e), hi (Element e))) Elements) Elements =
     (\<Sum>e\<leftarrow>Elements. lo (Element e) * massFraction e, \<Sum>e\<leftarrow>Elements. hi (Element e) * massFraction e)"
  by (simp add: mu_ave_def mu_tot_def zip_map1 zip_same_conv_map comp_def)

lemma mass_step_compound_eq:
  assumes xs: "\<forall>e\<in>set Elements. CS_Photo lib (Element e) (E0 - 0.05) = Inr (lo (Element e)) \<and>
                 CS_Photo lib (Element e) (E0 + 0.05) = Inr (hi (Element e))"
    and ne: "Elements \<noteq> []"
    and mu: "(\<Sum>e\<leftarrow>Elements. hi (Element e) * massFraction e) \<noteq> 0"
    and area: "Area \<noteq> 0"
  shows "mass_step_compound lib Elements E0 Area AL =
     Inr (AL * Area / (\<Sum>e\<leftarrow>Elements. hi (Element e) * massFraction e),
          Max ((\<lambda>e. massFraction e * (AL * Area / (\<Sum>e\<leftarrow>Elements. hi (Element e) * massFraction e)) / Area
                       * (hi (Element e) - lo (Element e))) ` set Elements))"
proof -
  let ?XS = "map (\<lambda>e. (lo (Element e), hi (Element e))) Elements"
  let ?m = "AL * Area / (\<Sum>e\<leftarrow>Elements. hi (Element e) * massFraction e)"
  let ?c = "\<lambda>e. massFraction e * ?m / Area * (hi (Element e) - lo (Element e))"
  have 1: "mapM (\<lambda>e. Photo_XS_row lib E0 (Element e)) Elements = Inr ?XS"
    using xs by (intro mapM_Inr) (simp add: Photo_XS_row_def)
  have 2: "np_div (AL * Area) (snd (mu_ave ?XS Elements)) = Inr ?m"
    using mu by (simp add: mu_ave_sums np_div_def)
  have 3: "mapM (\<lambda>(p, e). bnd (np_div (massFraction e * ?m) Area)
                  (\<lambda>q. Inr (q * (snd p - fst p)))) (zip ?XS Elements) = Inr (map ?c Elements)"
  proof -
    have "mapM (\<lambda>(p, e). bnd (np_div (massFraction e * ?m) Area)
                  (\<lambda>q. Inr (q * (snd p - fst p)))) (zip ?XS Elements)
        = Inr (map (\<lambda>(p, e). massFraction e * ?m / Area * (snd p - fst p)) (zip ?XS Elements))"
      using area by (intro mapM_Inr) (auto simp: np_div_def)
    also have "map (\<lambda>(p, e). massFraction e * ?m / Area * (snd p - fst p)) (zip ?XS Elements)
        = map ?c Elements"
      by (simp add: zip_map1 zip_same_conv_map comp_def)
    finally show ?thesis .
  qed
  have 4: "np_max (map ?c Elements) = Max (?c ` set Elements)"
    using ne by (simp add: np_max_Max)
  show ?thesis
    unfolding mass_step_compound_def 1 bnd_Inr 2 3 4 ..
qed


lemma mass_step_single_eq:
  assumes "CS_Photo lib (Element e) (E0 - 0.05) = Inr l" "CS_Photo lib (Element e) (E0 + 0.05) = Inr h"
    and "h \<noteq> 0" "Area \<noteq> 0"
  shows "mass_step_single lib (e # es) E0 Area AL =
     Inr (AL * Area / h, AL * Area / h / Area * (h - l))"
  using assms by (simp add: mass_step_single_def py_first_def Photo_XS_row_def py_div_def)

text \<open>
  C1. Let the sample parse to \<open>Elements\<close>, let the edge energy of the absorbing element be
  \<open>E0\<close> (keV), and let \<open>lo z\<close> and \<open>hi z\<close> be the cross sections the library reports for
  the element \<open>z\<close> at \<open>E0 - 0.05\<close> and \<open>E0 + 0.05\<close>. With more than one element the
  averages \<open>mu_below\<close> and \<open>mu_above\<close> are the sums of the cross sections weighted by the
  mass fractions, the mass is \<open>AL * Area / mu_above\<close>, and the step is the maximum over
  the elements of \<open>(massFraction * mass / Area) * (hi - lo)\<close>. With exactly one element
  the mass is \<open>AL * Area / hi\<close> and the step is \<open>(mass / Area) * (hi - lo)\<close>. In both
  cases the function returns \<open>E0\<close> and the mass multiplied by 1000 (eV and mg), and the
  step as computed from the mass in g.
\<close>

theorem XASMassCalc_mass_and_step:
  assumes sample: "CompoundParser lib Sample = Inr Elements"
    and absorber: "CompoundParser lib Element_arg = Inr (a # rest)"
      "AtomicNumberToSymbol lib (Element a) = Inr symb"
      "identify_edge lib symb Edge = Inr E0"
    and xs: "\<forall>e\<in>set Elements. CS_Photo lib (Element e) (E0 - 0.05) = Inr (lo (Element e)) \<and>
                 CS_Photo lib (Element e) (E0 + 0.05) = Inr (hi (Element e))"
    and mu_below: "mu_below = (\<Sum>e\<leftarrow>Elements. lo (Element e) * massFraction e)"
    and mu_above: "mu_above = (\<Sum>e\<leftarrow>Elements. hi (Element e) * massFraction e)"
    and nz: "mu_above \<noteq> 0" "Area \<noteq> 0"
  shows "(1 < length Elements \<longrightarrow>
           mu_ave (map (\<lambda>e. (lo (Element e), hi (Element e))) Elements) Elements = (mu_below, mu_above) \<and>
           (let mass = AL * Area / mu_above in
            XASMassCalc lib Sample Element_arg Edge Area AL delta =
              Inr (E0 * 1000, mass * 1000,
                   Max ((\<lambda>e. (massFraction e * mass / Area) * (hi (Element e) - lo (Element e)))
                          ` set Elements)))) \<and>
         (\<forall>e. Elements = [e] \<longrightarrow>
           (let mass = AL * Area / hi (Element e) in
            XASMassCalc lib Sample Element_arg Edge Area AL delta =
              Inr (E0 * 1000, mass * 1000, (mass / Area) * (hi (Element e) - lo (Element e)))))"
proof (intro conjI impI allI)
  show "mu_ave (map (\<lambda>e. (lo (Element e), hi (Element e))) Elements) Elements = (mu_below, mu_above)"
    by (simp add: mu_ave_sums mu_below mu_above)
next
  assume len: "1 < length Elements"
  then have ne: "Elements \<noteq> []" by auto
  have "mass_step_compound lib Elements E0 Area AL =
     Inr (AL * Area / mu_above,
          Max ((\<lambda>e. massFraction e * (AL * Area / mu_above) / Area
                       * (hi (Element e) - lo (Element e))) ` set Elements))"
    unfolding mu_above using xs ne nz [unfolded mu_above] by (rule mass_step_compound_eq)
  then show "let mass = AL * Area / mu_above in
            XASMassCalc lib Sample Element_arg Edge Area AL delta =
              Inr (E0 * 1000, mass * 1000,
                   Max ((\<lambda>e. (massFraction e * mass / Area) * (hi (Element e) - lo (Element e)))
                          ` set Elements))"
    using len
    by (simp only: XASMassCalc_def Let_def sample absorber bnd_Inr py_first_def list.case
        if_True prod.case)
next
  fix e assume one: "Elements = [e]"
  have h: "hi (Element e) \<noteq> 0"
    using nz(1) by (auto simp: mu_above one)
  have "mass_step_single lib Elements E0 Area AL =
     Inr (AL * Area / hi (Element e), AL * Area / hi (Element e) / Area * (hi (Element e) - lo (Element e)))"
    unfolding one using xs h nz(2) by (intro mass_step_single_eq) (simp_all add: one)
  then show "let mass = AL * Area / hi (Element e) in
            XASMassCalc lib Sample Element_arg Edge Area AL delta =
              Inr (E0 * 1000, mass * 1000, (mass / Area) * (hi (Element e) - lo (Element e)))"
    by (simp only: XASMassCalc_def Let_def sample absorber bnd_Inr py_first_def list.case
        one list.size less_irrefl if_False prod.case One_nat_def add_0 add_Suc lessI)
qed

theorem XASMassCalc_mass_and_step_witness:
  "XASMassCalc demo_lib ''Fe2O3'' ''Fe'' ''K'' 1 (5 / 2) 50 = Inr (7112, 25000 / 2833, 6125 / 2833) \<and>
   XASMassCalc demo_lib ''Fe'' ''Fe'' ''K'' 1 (5 / 2) 50 = Inr (7112, 25 / 4, 35 / 16)"
proof
  let ?lo = "\<lambda>z::int. if z = 26 then 50 else (12::real)"
  let ?hi = "\<lambda>z::int. if z = 26 then 400 else (11::real)"
  let ?O = "\<lparr>Element = 8, massFraction = 3 / 10, nAtoms = 3\<rparr>"
  let ?Fe = "\<lparr>Element = 26, massFraction = 7 / 10, nAtoms = 2\<rparr>"
  let ?Fe1 = "\<lparr>Element = 26, massFraction = 1, nAtoms = 1\<rparr>"
  have edge: "identify_edge demo_lib ''Fe'' ''K'' = Inr (7112 / 1000)"
    by (simp add: identify_edge_def demo_simps)
  have "1 < length [?O, ?Fe] \<longrightarrow>
     mu_ave (map (\<lambda>e. (?lo (Element e), ?hi (Element e))) [?O, ?Fe]) [?O, ?Fe] = (386 / 10, 2833 / 10) \<and>
     (let mass = (5 / 2) * 1 / (2833 / 10) in
      XASMassCalc demo_lib ''Fe2O3'' ''Fe'' ''K'' 1 (5 / 2) 50 =
        Inr (7112 / 1000 * 1000, mass * 1000,
          Max ((\<lambda>e. (massFraction e * mass / 1) * (?hi (Element e) - ?lo (Element e))) ` set [?O, ?Fe])))"
    using XASMassCalc_mass_and_step [of demo_lib "''Fe2O3''" "[?O, ?Fe]" "''Fe''" ?Fe1 "[]" "''Fe''"
        "''K''" "7112 / 1000" ?lo ?hi "386 / 10" "2833 / 10" 1 "5 / 2" 50] edge
    by (simp add: demo_simps)
  then show "XASMassCalc demo_lib ''Fe2O3'' ''Fe'' ''K'' 1 (5 / 2) 50 = Inr (7112, 25000 / 2833, 6125 / 2833)"
    by simp
next
  let ?lo = "\<lambda>z::int. (50::real)"
  let ?hi = "\<lambda>z::int. (400::real)"
  let ?Fe1 = "\<lparr>Element = 26, massFraction = 1, nAtoms = 1\<rparr>"
  have edge: "identify_edge demo_lib ''Fe'' ''K'' = Inr (7112 / 1000)"
    by (simp add: identify_edge_def demo_simps)
  have "\<forall>e. [?Fe1] = [e] \<longrightarrow>
     (let mass = (5 / 2) * 1 / ?hi (Element e) in
      XASMassCalc demo_lib ''Fe'' ''Fe'' ''K'' 1 (5 / 2) 50 =
        Inr (7112 / 1000 * 1000, mass * 1000, (mass / 1) * (?hi (Element e) - ?lo (Element e))))"
    using XASMassCalc_mass_and_step [of demo_lib "''Fe''" "[?Fe1]" "''Fe''" ?Fe1 "[]" "''Fe''"
        "''K''" "7112 / 1000" ?lo ?hi 50 400 1 "5 / 2" 50] edge
    by (simp add: demo_simps)
  then show "XASMassCalc demo_lib ''Fe'' ''Fe'' ''K'' 1 (5 / 2) 50 = Inr (7112, 25 / 4, 35 / 16)"
    by simp
qed

subsection \<open>Edge labels\<close>





subsection \<open>The absorbing element\<close>



subsection \<open>Positive mass and step, and the tabulated edge energy\<close>





subsection \<open>The energy window\<close>

text \<open>
  C3 (the code departs from it). The claim: the cross sections are queried at
  \<open>E0 - delta\<close> and \<open>E0 + delta\<close> for the \<open>delta\<close> the caller passes. The code converts
  \<open>delta\<close> to keV and then queries at the fixed offsets \<open>0.05\<close>: the result of
  \<open>XASMassCalc\<close> is the same for every two values of \<open>delta\<close>.
\<close>

theorem XASMassCalc_ignores_delta:
  "XASMassCalc lib Sample Element_arg Edge Area AL delta =
   XASMassCalc lib Sample Element_arg Edge Area AL delta'"
  by (simp add: XASMassCalc_def)

subsection \<open>Mole normalisation\<close>

lemma foldM_vstack:
  "t \<noteq> [] \<Longrightarrow> foldM (\<lambda>t e. vstack t (f e)) t es = Inr (t @ map f es)"
  by (induction es arbitrary: t) (simp_all add: vstack_def)

lemma normalized_mol_rows:
  assumes len: "2 \<le> length t"
    and w: "\<forall>r\<in>set t. AtomicWeight lib (fst r) = Inr (w (fst r)) \<and> w (fst r) \<noteq> 0"
    and m: "Min (set (map (\<lambda>r. snd r / w (fst r)) t)) \<noteq> 0"
  shows "normalized_mol lib t =
     Inr (map (\<lambda>r. snd r / w (fst r) / Min (set (map (\<lambda>r. snd r / w (fst r)) t))) t)"
proof -
  let ?mol = "map (\<lambda>r. snd r / w (fst r)) t"
  obtain r1 r2 rs where t: "t = r1 # r2 # rs"
    using len by (auto simp: Suc_le_length_iff numeral_2_eq_2)
  have ne: "?mol \<noteq> []"
    using t by simp
  have 1: "mapM (mol_row lib) t = Inr ?mol"
    using w by (intro mapM_Inr) (simp add: mol_row_def np_div_def)
  have 2: "mapM (\<lambda>x. np_div x (py_min ?mol)) ?mol = Inr (map (\<lambda>x. x / Min (set ?mol)) ?mol)"
    using m by (intro mapM_Inr) (simp add: np_div_def py_min_Min [OF ne])
  have "normalized_mol lib t = bnd (mapM (mol_row lib) t) (\<lambda>mol. mapM (\<lambda>x. np_div x (py_min mol)) mol)"
    by (simp add: normalized_mol_def t)
  also have "\<dots> = Inr (map (\<lambda>x. x / Min (set ?mol)) ?mol)"
    by (simp only: 1 bnd_Inr 2)
  finally show ?thesis
    by (simp add: comp_def)
qed

text \<open>
  With two or more rows, positive mass fractions and positive atomic weights the block
  returns a list whose minimum is 1 and whose entries are all at least 1.
\<close>

lemma normalized_mol_min_one:
  assumes len: "2 \<le> length t"
    and w: "\<forall>r\<in>set t. AtomicWeight lib (fst r) = Inr (w (fst r)) \<and> 0 < w (fst r)"
    and mf: "\<forall>r\<in>set t. 0 < snd r"
  shows "\<exists>mol. normalized_mol lib t = Inr mol \<and> length mol = length t \<and>
           Min (set mol) = 1 \<and> (\<forall>x\<in>set mol. 1 \<le> x)"
proof -
  let ?f = "\<lambda>r. snd r / w (fst r)"
  let ?mol = "map ?f t"
  let ?m = "Min (set ?mol)"
  have ne: "t \<noteq> []"
    using len by auto
  have pos: "\<forall>x\<in>set ?mol. 0 < x"
    using w mf by auto
  have mem: "?m \<in> set ?mol"
    using ne by (intro Min_in) auto
  then have m: "0 < ?m"
    using pos by blast
  have eq: "normalized_mol lib t = Inr (map (\<lambda>r. ?f r / ?m) t)"
    using len w m by (intro normalized_mol_rows) auto
  have ge: "\<forall>x\<in>set (map (\<lambda>r. ?f r / ?m) t). 1 \<le> x"
  proof
    fix x assume "x \<in> set (map (\<lambda>r. ?f r / ?m) t)"
    then obtain r where r: "r \<in> set t" "x = ?f r / ?m" by auto
    have "?m \<le> ?f r"
      using r(1) by (intro Min_le) auto
    then have "1 \<le> ?f r / ?m"
      using m by (simp only: le_divide_eq_1_pos)
    then show "1 \<le> x"
      by (simp only: r(2))
  qed
  obtain r0 where r0: "r0 \<in> set t" "?f r0 = ?m"
    using mem by auto
  have "?f r0 / ?m = 1"
    using m by (simp only: r0(2)) simp
  then have "1 \<in> (\<lambda>r. ?f r / ?m) ` set t"
    using r0(1) by (metis (no_types, lifting) image_eqI)
  then have "1 \<in> set (map (\<lambda>r. ?f r / ?m) t)"
    by (simp only: set_map)
  then have "Min (set (map (\<lambda>r. ?f r / ?m) t)) = 1"
    using ge by (intro Min_eqI) auto
  then show ?thesis
    using eq ge by (intro exI [of _ "map (\<lambda>r. ?f r / ?m) t"]) simp
qed

text \<open>
  C4 (the code departs from it). The claim: for every non-empty table with positive mass
  fractions the normalised moles have minimum 1 and entries at least 1, in each of the
  three functions. For two or more rows that is \<open>normalized_mol_min_one\<close>. A table of one
  row is the flat list \<open>[Z, mf]\<close> and not an array: the block raises \<^verbatim>\<open>TypeError\<close> at
  \<^verbatim>\<open>Updated_MF[x,1]\<close> and no normalised list is produced. \<^verbatim>\<open>XASStoichCalc\<close> reaches
  the block with one row when the first sample has one element and the second ratio is 0.
\<close>

theorem normalized_mol_one_row: "normalized_mol lib [row] = Inl TypeError"
  by (simp add: normalized_mol_def)

text \<open>
  C5 (amended). The claim: a table that is empty or has a zero or negative mass fraction
  makes the normalisation fail with an error of its own. The block checks nothing. With
  no row it fails with the \<^verbatim>\<open>ValueError\<close> of \<^verbatim>\<open>min([])\<close>. With two or more rows it
  divides the moles of every row by the smallest moles value whenever that value is not
  zero, whatever the signs: a negative mass fraction gives negative subscripts.
\<close>

theorem normalized_mol_unchecked:
  assumes len: "2 \<le> length t"
    and w: "\<forall>r\<in>set t. AtomicWeight lib (fst r) = Inr (w (fst r)) \<and> w (fst r) \<noteq> 0"
    and m: "Min (set (map (\<lambda>r. snd r / w (fst r)) t)) \<noteq> 0"
  shows "normalized_mol lib [] = Inl ValueError \<and>
         normalized_mol lib t =
           Inr (map (\<lambda>r. snd r / w (fst r) / Min (set (map (\<lambda>r. snd r / w (fst r)) t))) t)"
  using normalized_mol_rows [OF len w m] by (simp add: normalized_mol_def)

theorem normalized_mol_unchecked_witness:
  "normalized_mol demo_lib [] = Inl ValueError \<and>
   normalized_mol demo_lib [(8, 3 / 10), (26, - (7 / 10))] = Inr [- (3 / 2), 1]"
  using normalized_mol_unchecked [of "[(8, 3 / 10), (26, - (7 / 10))]" demo_lib
      "\<lambda>z. if z = 8 then 16 else 56"]
  by (simp add: demo_simps)

theorem normalized_mol_counterexample:
  "metal_table demo_lib [\<lparr>Element = 78, massFraction = 1, nAtoms = 1\<rparr>] 150 '''' 0
       [\<lparr>Element = 8, massFraction = 1, nAtoms = 1\<rparr>] = Inr [(78, 3 / 2), (8, - (1 / 2))] \<and>
   normalized_mol demo_lib [(78, 3 / 2), (8, - (1 / 2))] = Inr [- (16 / 65), 1]"
  by (simp add: metal_table_def vstack_def normalized_mol_def mol_row_def np_div_def demo_simps)

subsection \<open>Dilution with no diluent\<close>

lemma dilution_table_no_diluent:
  assumes "0 < r"
  shows "dilution_table Sample1_Elements Sample2_Elements r 0 =
         Inr (map (\<lambda>e. (Element e, massFraction e)) Sample1_Elements)"
proof -
  have "mapM (dilution_row r r 0) Sample1_Elements =
        Inr (map (\<lambda>e. (Element e, massFraction e)) Sample1_Elements)"
    using assms by (intro mapM_Inr) (simp add: dilution_row_def py_div_def)
  then show ?thesis
    by (simp add: dilution_table_def)
qed

lemma XASStoichCalc_no_diluent:
  assumes "CompoundParser lib Sample1 = Inr Sample1_Elements"
    and "CompoundParser lib Sample2 = Inr Sample2_Elements"
    and "0 < r"
  shows "XASStoichCalc lib Sample1 Sample2 r 0 =
     bnd (intermediate_string lib (map (\<lambda>e. (Element e, massFraction e)) Sample1_Elements))
       (\<lambda>Sample_String. bnd (CompoundParser lib Sample_String) (condensed_string lib ''''))"
  using assms by (simp add: XASStoichCalc_def dilution_table_no_diluent)

text \<open>
  C6 (the code departs from it). The claim: with second ratio 0 and first ratio \<open>r > 0\<close>
  the result is the canonical formula of the first sample alone. The table is indeed
  that of the first sample alone (\<open>dilution_table_no_diluent\<close>), and
  \<open>XASStoichCalc_no_diluent\<close> is the rest of the function applied to it. But when the
  first sample has one element that table has one row, and the function raises
  \<^verbatim>\<open>TypeError\<close> where the claim expects a formula such as \<^verbatim>\<open>Fe1.000000\<close>.
\<close>

theorem XASStoichCalc_single_element_no_diluent:
  assumes "CompoundParser lib Sample1 = Inr [e]"
    and "CompoundParser lib Sample2 = Inr Sample2_Elements"
    and "0 < r"
  shows "XASStoichCalc lib Sample1 Sample2 r 0 = Inl TypeError"
  using assms
  by (simp add: XASStoichCalc_def dilution_table_no_diluent intermediate_string_def
      normalized_mol_def)

theorem XASStoichCalc_single_element_no_diluent_witness:
  "XASStoichCalc demo_lib ''Fe'' ''SiO2'' 1 0 = Inl TypeError"
  using XASStoichCalc_single_element_no_diluent [of demo_lib "''Fe''"
      "\<lparr>Element = 26, massFraction = 1, nAtoms = 1\<rparr>" "''SiO2''"
      "[\<lparr>Element = 8, massFraction = 8 / 15, nAtoms = 2\<rparr>,
        \<lparr>Element = 14, massFraction = 7 / 15, nAtoms = 1\<rparr>]" 1]
  by (simp add: demo_simps)

subsection \<open>One metal site on a support\<close>

text \<open>
  C10. With the empty string as second metal site the result does not depend on the
  second loading, and the rows of the support are weighted by \<open>1 - Metal1_Loading / 100\<close>
  alone.
\<close>

theorem metalCalculateSample_single_metal:
  "metalCalculateSample lib Metal_Site1 Metal1_Loading '''' Metal2_Loading Support =
   metalCalculateSample lib Metal_Site1 Metal1_Loading '''' Metal2_Loading' Support \<and>
   (MetalSite1_Elements \<noteq> [] \<longrightarrow>
     metal_table lib MetalSite1_Elements Metal1_Loading '''' Metal2_Loading Support_Elements =
       Inr (map (\<lambda>e. (Element e, massFraction e * Metal1_Loading / 100)) MetalSite1_Elements @
            map (\<lambda>e. (Element e, massFraction e * (1 - Metal1_Loading / 100))) Support_Elements))"
  by (simp add: metalCalculateSample_def metal_table_def foldM_vstack)

theorem metalCalculateSample_single_metal_witness:
  "metalCalculateSample demo_lib ''Pt'' 5 '''' 7 ''SiO2'' =
   metalCalculateSample demo_lib ''Pt'' 5 '''' 93 ''SiO2'' \<and>
   metal_table demo_lib [\<lparr>Element = 78, massFraction = 1, nAtoms = 1\<rparr>] 5 '''' 7
     [\<lparr>Element = 8, massFraction = 8 / 15, nAtoms = 2\<rparr>,
      \<lparr>Element = 14, massFraction = 7 / 15, nAtoms = 1\<rparr>] =
     Inr [(78, 1 / 20), (8, 38 / 75), (14, 133 / 300)]"
  using metalCalculateSample_single_metal [of demo_lib "''Pt''" 5 7 "''SiO2''" 93
      "[\<lparr>Element = 78, massFraction = 1, nAtoms = 1\<rparr>]"
      "[\<lparr>Element = 8, massFraction = 8 / 15, nAtoms = 2\<rparr>,
        \<lparr>Element = 14, massFraction = 7 / 15, nAtoms = 1\<rparr>]"]
  by simp

subsection \<open>The scale factor of a complex\<close>





end
